theory Spec2Isabelle
  imports Main
begin

section \<open>Exceptions and responses\<close>

text \<open>
  The handlers of \<^verbatim>\<open>instructor_router.py\<close> either return a response or raise.
  A raise is a value: \<open>HTTPException\<close> for the ones the handlers raise themselves,
  \<open>SqliteError\<close> for the classes below \<^verbatim>\<open>sqlite3.Error\<close>, \<open>PyError\<close> (class name, message)
  for any other Python exception a collaborator may raise.
\<close>

datatype sqlite_class =
    InterfaceError | DatabaseError | DataError | OperationalError
  | IntegrityError | InternalError | ProgrammingError | NotSupportedError

fun type_name :: "sqlite_class \<Rightarrow> string" where
  "type_name InterfaceError = ''InterfaceError''"
| "type_name DatabaseError = ''DatabaseError''"
| "type_name DataError = ''DataError''"
| "type_name OperationalError = ''OperationalError''"
| "type_name IntegrityError = ''IntegrityError''"
| "type_name InternalError = ''InternalError''"
| "type_name ProgrammingError = ''ProgrammingError''"
| "type_name NotSupportedError = ''NotSupportedError''"

text \<open>The \<^verbatim>\<open>detail\<close> of an HTTPException: a message, or the dict \<^verbatim>\<open>{"type": ..., "msg": ...}\<close>.\<close>

datatype detail = Text string | TypeMsg string string

datatype exn =
    HTTPException nat detail
  | SqliteError sqlite_class string
  | PyError string string

text \<open>
  A response body is \<^verbatim>\<open>{"detail": msg}\<close> or \<^verbatim>\<open>{"data": [{key: value}, ...]}\<close>; every entry
  of the data array is a dict with one key.
\<close>

datatype body = Detail string | Data "(string \<times> string) list"

datatype response = JSONResponse nat body

definition BAD_REQUEST :: nat where "BAD_REQUEST = 400"
definition NOT_FOUND :: nat where "NOT_FOUND = 404"
definition CONFLICT :: nat where "CONFLICT = 409"
definition OK :: nat where "OK = 200"

section \<open>Parsing the path parameter\<close>

text \<open>
  \<^verbatim>\<open>str.split(sep)\<close> with a separator of one character: the pieces between the
  occurrences of the separator, empty pieces included; the empty string gives \<^verbatim>\<open>['']\<close>.
  The result is never empty, so the \<open>[]\<close> branch of the case is never taken.
\<close>

fun split_py :: "char \<Rightarrow> string \<Rightarrow> string list" where
  "split_py sep [] = [[]]"
| "split_py sep (c # cs) =
     (if c = sep then [] # split_py sep cs
      else (case split_py sep cs of
              [] \<Rightarrow> [[c]]
            | p # ps \<Rightarrow> (c # p) # ps))"

section \<open>The roster store and the waitlist store\<close>

text \<open>
  An item of the wide-column store is a dict from attribute names to values; a value is a
  string or a number.
\<close>

datatype attr = S string | N int

type_synonym item = "(string \<times> attr) list"

text \<open>
  The \<^verbatim>\<open>query_params\<close> dict. The handlers build two kinds of expression only:
  \<^verbatim>\<open>Key(a).eq(x) & Key(b).eq(y)\<close> and \<^verbatim>\<open>Attr(a).eq(x)\<close>, so an expression is the
  list of its (attribute, value) equalities; a key the dict does not have is \<open>None\<close>
  (or the empty list).
\<close>

record query_params =
  IndexName :: "string option"
  KeyConditionExpression :: "(string \<times> attr) list"
  FilterExpression :: "(string \<times> attr) list"
  ProjectionExpression :: "string option"

text \<open>
  The two collaborators the read handlers receive: \<^verbatim>\<open>db.query(tablename, query_params)\<close>
  and \<^verbatim>\<open>db_redis.zrange(name, start, end)\<close>. Both may raise. The table is named by its key
  in \<^verbatim>\<open>DYNAMO_TABLENAMES\<close> (the dict itself is in the module \<^verbatim>\<open>Dynamo\<close>). The members of a
  sorted set are taken as text already: \<^verbatim>\<open>decode("utf-8")\<close> is the identity on them.
\<close>

type_synonym dynamo = "string \<Rightarrow> query_params \<Rightarrow> exn + item list"

type_synonym redis = "string \<Rightarrow> int \<Rightarrow> int \<Rightarrow> exn + string list"

record personnel =
  cwid :: attr

text \<open>The calls a handler makes to its stores, in order.\<close>

datatype store_call = Query string query_params | ZRange string int int

text \<open>\<^verbatim>\<open>str(x)\<close> of an attribute value: a string is itself, a number its decimal digits.\<close>

fun str_nat :: "nat \<Rightarrow> string" where
  "str_nat n =
     (if n < 10 then [''0123456789'' ! n]
      else str_nat (n div 10) @ [''0123456789'' ! (n mod 10)])"

declare str_nat.simps [simp del]

definition str_int :: "int \<Rightarrow> string" where
  "str_int i = (if i < 0 then CHR ''-'' # str_nat (nat (- i)) else str_nat (nat i))"

fun str_attr :: "attr \<Rightarrow> string" where
  "str_attr (S s) = s"
| "str_attr (N i) = str_int i"

text \<open>
  \<^verbatim>\<open>list(map(lambda x : {key : str(x["student_cwid"])}, items))\<close>: the first item without
  the attribute raises KeyError.
\<close>

fun to_entries :: "string \<Rightarrow> item list \<Rightarrow> exn + (string \<times> string) list" where
  "to_entries k [] = Inr []"
| "to_entries k (x # xs) =
     (case map_of x ''student_cwid'' of
        None \<Rightarrow> Inl (PyError ''KeyError'' ''student_cwid'')
      | Some v \<Rightarrow>
          (case to_entries k xs of
             Inl e \<Rightarrow> Inl e
           | Inr r \<Rightarrow> Inr ((k, str_attr v) # r)))"

section \<open>The read handlers\<close>

definition invalid_class_term :: exn where
  "invalid_class_term =
     HTTPException BAD_REQUEST
       (Text ''invalid class term. class term must be in the format of $term_$class'')"

definition class_not_found :: exn where
  "class_not_found = HTTPException NOT_FOUND (Text ''class information not found'')"

definition query_class_information_params :: "string \<Rightarrow> string \<Rightarrow> personnel \<Rightarrow> query_params" where
  "query_class_information_params term class' user =
     \<lparr>IndexName = None,
      KeyConditionExpression = [(''term'', S term), (''class'', S class')],
      FilterExpression = [(''instructor_id'', cwid user)],
      ProjectionExpression = None\<rparr>"

definition query_class_enrollment_params :: "string \<Rightarrow> string \<Rightarrow> query_params" where
  "query_class_enrollment_params term class' =
     \<lparr>IndexName = Some ''class_enrollment'',
      KeyConditionExpression = [(''term'', S term), (''class'', S class')],
      FilterExpression = [],
      ProjectionExpression = Some ''student_cwid''\<rparr>"

definition query_dropped_students_params :: "string \<Rightarrow> string \<Rightarrow> query_params" where
  "query_dropped_students_params term class' =
     \<lparr>IndexName = Some ''class_dropped_students'',
      KeyConditionExpression = [(''term'', S term), (''class'', S class')],
      FilterExpression = [],
      ProjectionExpression = None\<rparr>"

text \<open>
  Each handler returns what it returns or raises, and the store calls it made.
  \<^verbatim>\<open>term, _class = args\<close> is \<open>args ! 0\<close> and \<open>args ! 1\<close>, read only where the length is 2.
  A query returns the list of its items, and \<^verbatim>\<open>not class_information\<close> holds of the
  empty list. The \<^verbatim>\<open>print\<close> of \<^verbatim>\<open>get_droplist\<close> writes to the log only and is left out.
\<close>

definition get_current_enrollment ::
  "string \<Rightarrow> dynamo \<Rightarrow> personnel \<Rightarrow> (exn + response) \<times> store_call list" where
  "get_current_enrollment class_term_slug db user =
     (let args = split_py CHR ''_'' class_term_slug in
      if length args \<noteq> 2 then (Inl invalid_class_term, [])
      else
        (let term = args ! 0; class' = args ! 1;
             q1 = query_class_information_params term class' user in
         (case db ''class'' q1 of
            Inl e \<Rightarrow> (Inl e, [Query ''class'' q1])
          | Inr class_information \<Rightarrow>
              if class_information = [] then (Inl class_not_found, [Query ''class'' q1])
              else
                (let q2 = query_class_enrollment_params term class' in
                 (case db ''enrollment'' q2 of
                    Inl e \<Rightarrow> (Inl e, [Query ''class'' q1, Query ''enrollment'' q2])
                  | Inr class_enrollment \<Rightarrow>
                      (case to_entries ''cwid'' class_enrollment of
                         Inl e \<Rightarrow> (Inl e, [Query ''class'' q1, Query ''enrollment'' q2])
                       | Inr response \<Rightarrow>
                           (Inr (JSONResponse OK (Data response)),
                            [Query ''class'' q1, Query ''enrollment'' q2])))))))"

definition get_waitlist ::
  "string \<Rightarrow> dynamo \<Rightarrow> redis \<Rightarrow> personnel \<Rightarrow> (exn + response) \<times> store_call list" where
  "get_waitlist class_term_slug db db_redis user =
     (let args = split_py CHR ''_'' class_term_slug in
      if length args \<noteq> 2 then (Inl invalid_class_term, [])
      else
        (let term = args ! 0; class' = args ! 1;
             q1 = query_class_information_params term class' user in
         (case db ''class'' q1 of
            Inl e \<Rightarrow> (Inl e, [Query ''class'' q1])
          | Inr class_information \<Rightarrow>
              if class_information = [] then (Inl class_not_found, [Query ''class'' q1])
              else
                (let set_name = class' @ ''-'' @ term in
                 (case db_redis set_name 0 15 of
                    Inl e \<Rightarrow> (Inl e, [Query ''class'' q1, ZRange set_name 0 15])
                  | Inr waitlist_information \<Rightarrow>
                      (Inr (JSONResponse OK
                             (Data (map (\<lambda>x. (''student_cwid'', x)) waitlist_information))),
                       [Query ''class'' q1, ZRange set_name 0 15]))))))"

definition get_droplist ::
  "string \<Rightarrow> dynamo \<Rightarrow> personnel \<Rightarrow> (exn + response) \<times> store_call list" where
  "get_droplist class_term_slug db user =
     (let args = split_py CHR ''_'' class_term_slug in
      if length args \<noteq> 2 then (Inl invalid_class_term, [])
      else
        (let term = args ! 0; class' = args ! 1;
             q1 = query_class_information_params term class' user in
         (case db ''class'' q1 of
            Inl e \<Rightarrow> (Inl e, [Query ''class'' q1])
          | Inr class_information \<Rightarrow>
              if class_information = [] then (Inl class_not_found, [Query ''class'' q1])
              else
                (let q2 = query_dropped_students_params term class' in
                 (case db ''droplist'' q2 of
                    Inl e \<Rightarrow> (Inl e, [Query ''class'' q1, Query ''droplist'' q2])
                  | Inr class_dropped_students \<Rightarrow>
                      (case to_entries ''student_cwid'' class_dropped_students of
                         Inl e \<Rightarrow> (Inl e, [Query ''class'' q1, Query ''droplist'' q2])
                       | Inr response \<Rightarrow>
                           (Inr (JSONResponse OK (Data response)),
                            [Query ''class'' q1, Query ''droplist'' q2])))))))"

subsection \<open>A roster store with the query semantics of the spec\<close>

record roster_store =
  class_items :: "item list"
  enrollment_items :: "item list"
  droplist_items :: "item list"

definition satisfies :: "(string \<times> attr) list \<Rightarrow> item \<Rightarrow> bool" where
  "satisfies conds it = list_all (\<lambda>(k, v). map_of it k = Some v) conds"

definition project :: "string option \<Rightarrow> item \<Rightarrow> item" where
  "project p it = (case p of None \<Rightarrow> it | Some a \<Rightarrow> filter (\<lambda>(k, v). k = a) it)"

definition table_of :: "roster_store \<Rightarrow> string \<Rightarrow> item list option" where
  "table_of st tablename =
     (if tablename = ''class'' then Some (class_items st)
      else if tablename = ''enrollment'' then Some (enrollment_items st)
      else if tablename = ''droplist'' then Some (droplist_items st)
      else None)"

text \<open>
  Modelled from the spec: the query wrapper of the module \<^verbatim>\<open>Dynamo\<close>, which is not among
  the sources. The spec treats the store as a keyed datastore "queried by composite key
  (term, class) with optional filters/projections/secondary indexes": a query returns, in
  table order, the items that have every key attribute and every filter attribute with
  the value asked for, cut down to the projected attribute when there is a projection.
  An index holds the items of its table, so its name does not change the result.
\<close>

definition store_query :: "roster_store \<Rightarrow> dynamo" where
  "store_query st tablename qp =
     (case table_of st tablename of
        None \<Rightarrow> Inl (PyError ''ClientError'' ''ResourceNotFoundException'')
      | Some items \<Rightarrow>
          Inr (map (project (ProjectionExpression qp))
                 (filter (\<lambda>it. satisfies (KeyConditionExpression qp) it
                               \<and> satisfies (FilterExpression qp) it) items)))"

text \<open>The class of a key is owned by a user: some class item has the key and the user's id.\<close>

definition owns_class :: "roster_store \<Rightarrow> string \<Rightarrow> string \<Rightarrow> personnel \<Rightarrow> bool" where
  "owns_class st term class' user =
     list_ex (\<lambda>it. map_of it ''term'' = Some (S term) \<and> map_of it ''class'' = Some (S class')
                   \<and> map_of it ''instructor_id'' = Some (cwid user)) (class_items st)"

section \<open>The relational enrollment store\<close>

text \<open>
  The three tables the administrative drop uses, with the columns its two statements
  name. The schema is not among the sources; a row may have further columns.
\<close>

record class_row =
  c_id :: int
  c_instructor_id :: int

record enrollment_row =
  e_class_id :: int
  e_student_id :: int

record droplist_row =
  d_class_id :: int
  d_student_id :: int
  d_drop_date :: string
  d_administrative :: bool

record tables =
  class_tbl :: "class_row list"
  enrollment :: "enrollment_row list"
  droplist :: "droplist_row list"

text \<open>
  A \<^verbatim>\<open>sqlite3.Connection\<close> as \<^verbatim>\<open>sqlite3.connect\<close> makes it: a DELETE or an INSERT
  runs inside a transaction that the module opens by itself and that stays open until
  \<^verbatim>\<open>commit\<close> or \<^verbatim>\<open>rollback\<close>. \<open>committed\<close> is what the database file holds,
  \<open>working\<close> is what the connection sees, its uncommitted changes included.
\<close>

record connection =
  committed :: tables
  working :: tables

definition commit :: "connection \<Rightarrow> connection" where
  "commit db = db\<lparr>committed := working db\<rparr>"

text \<open>
  \<^verbatim>\<open>SELECT id FROM "class" WHERE id=? AND instructor_id=?\<close>
\<close>

definition owned_class_ids :: "tables \<Rightarrow> int \<Rightarrow> int \<Rightarrow> int list" where
  "owned_class_ids t class_id instructor_id =
     map c_id (filter (\<lambda>c. c_id c = class_id \<and> c_instructor_id c = instructor_id) (class_tbl t))"

text \<open>
  The WHERE clause of the DELETE:
  \<^verbatim>\<open>class_id = ? AND student_id=? AND class_id IN (SELECT ...)\<close>
\<close>

definition delete_where :: "tables \<Rightarrow> int \<Rightarrow> int \<Rightarrow> int \<Rightarrow> enrollment_row \<Rightarrow> bool" where
  "delete_where t class_id student_id instructor_id e \<longleftrightarrow>
     e_class_id e = class_id \<and> e_student_id e = student_id
     \<and> e_class_id e \<in> set (owned_class_ids t class_id instructor_id)"

text \<open>The DELETE: the number of rows it removes (\<^verbatim>\<open>rowcount\<close>) and the tables after it.\<close>

definition exec_delete :: "tables \<Rightarrow> int \<Rightarrow> int \<Rightarrow> int \<Rightarrow> nat \<times> tables" where
  "exec_delete t class_id student_id instructor_id =
     (length (filter (delete_where t class_id student_id instructor_id) (enrollment t)),
      t\<lparr>enrollment :=
          filter (\<lambda>e. \<not> delete_where t class_id student_id instructor_id e) (enrollment t)\<rparr>)"

text \<open>
  \<^verbatim>\<open>INSERT INTO droplist (class_id, student_id, drop_date, administrative)
  VALUES (?, ?, datetime('now'), 1)\<close>; the 1 is SQLite's true.
\<close>

definition exec_insert :: "tables \<Rightarrow> int \<Rightarrow> int \<Rightarrow> string \<Rightarrow> tables" where
  "exec_insert t class_id student_id ts =
     t\<lparr>droplist := droplist t @
          [\<lparr>d_class_id = class_id, d_student_id = student_id,
            d_drop_date = ts, d_administrative = True\<rparr>]\<rparr>"

text \<open>The calls on the connection, and the calls of the handler in order.\<close>

datatype db_call = ExecuteDelete int int int | ExecuteInsert int int | Commit

datatype call = Db db_call | IsAutoEnrollEnabled | EnrollStudentsFromWaitlist "int list"

text \<open>
  What the handler depends on and the source does not contain:
  \<^item> \<open>now\<close>: the value of \<^verbatim>\<open>datetime('now')\<close>;
  \<^item> \<open>raises\<close>: the exception, if any, with which the store refuses a call in a given
    state of the tables (a constraint of the schema, a locked database, a parameter
    that does not fit); a refused call changes nothing;
  \<^item> the two helpers of the module \<^verbatim>\<open>enrollment_helper\<close>: the flag read returns a
    truth value or raises and has no effect; the trigger returns the connection as
    it leaves it, and the exception it raised, if any.
\<close>

record env =
  now :: string
  raises :: "db_call \<Rightarrow> tables \<Rightarrow> exn option"
  is_auto_enroll_enabled :: "connection \<Rightarrow> exn + bool"
  enroll_students_from_waitlist :: "connection \<Rightarrow> int list \<Rightarrow> exn option \<times> connection"

section \<open>The administrative drop\<close>

definition record_not_found :: exn where
  "record_not_found = HTTPException NOT_FOUND (Text ''Record Not Found'')"

text \<open>
  Lines 210 to 231: the DELETE, the test of \<^verbatim>\<open>rowcount\<close>, the INSERT, the commit.
  The result is the exception raised, if any, the connection, and the calls made.
\<close>

definition drop_transaction ::
  "env \<Rightarrow> int \<Rightarrow> int \<Rightarrow> int \<Rightarrow> connection \<Rightarrow> exn option \<times> connection \<times> call list" where
  "drop_transaction ev class_id student_id instructor_id db =
     (let del = ExecuteDelete class_id student_id instructor_id in
      (case raises ev del (working db) of
         Some e \<Rightarrow> (Some e, db, [Db del])
       | None \<Rightarrow>
           (let rowcount = fst (exec_delete (working db) class_id student_id instructor_id);
                db1 = db\<lparr>working :=
                          snd (exec_delete (working db) class_id student_id instructor_id)\<rparr> in
            if rowcount = 0 then (Some record_not_found, db1, [Db del])
            else
              (let ins = ExecuteInsert class_id student_id in
               (case raises ev ins (working db1) of
                  Some e \<Rightarrow> (Some e, db1, [Db del, Db ins])
                | None \<Rightarrow>
                    (let db2 = db1\<lparr>working :=
                                 exec_insert (working db1) class_id student_id (now ev)\<rparr> in
                     (case raises ev Commit (working db2) of
                        Some e \<Rightarrow> (Some e, db2, [Db del, Db ins, Db Commit])
                      | None \<Rightarrow> (None, commit db2, [Db del, Db ins, Db Commit]))))))))"

text \<open>
  Lines 234 and 235:
  \<^verbatim>\<open>if is_auto_enroll_enabled(db): enroll_students_from_waitlist(db, [class_id])\<close>
\<close>

definition trigger_auto_enrollment ::
  "env \<Rightarrow> int \<Rightarrow> connection \<Rightarrow> exn option \<times> connection \<times> call list" where
  "trigger_auto_enrollment ev class_id db =
     (case is_auto_enroll_enabled ev db of
        Inl e \<Rightarrow> (Some e, db, [IsAutoEnrollEnabled])
      | Inr enabled \<Rightarrow>
          if enabled then
            (case enroll_students_from_waitlist ev db [class_id] of
               (r, db') \<Rightarrow> (r, db', [IsAutoEnrollEnabled, EnrollStudentsFromWaitlist [class_id]]))
          else (None, db, [IsAutoEnrollEnabled]))"

text \<open>The body of the \<^verbatim>\<open>try\<close>.\<close>

definition drop_class_try ::
  "env \<Rightarrow> int \<Rightarrow> int \<Rightarrow> int \<Rightarrow> connection \<Rightarrow> exn option \<times> connection \<times> call list" where
  "drop_class_try ev class_id student_id instructor_id db =
     (case drop_transaction ev class_id student_id instructor_id db of
        (Some e, db1, calls) \<Rightarrow> (Some e, db1, calls)
      | (None, db1, calls) \<Rightarrow>
          (case trigger_auto_enrollment ev class_id db1 of
             (r, db2, calls') \<Rightarrow> (r, db2, calls @ calls')))"

text \<open>
  \<^verbatim>\<open>except sqlite3.IntegrityError as e\<close>: an IntegrityError becomes the 409 with
  \<^verbatim>\<open>{"type": type(e).__name__, "msg": str(e)}\<close>; every other exception passes.
\<close>

fun except_IntegrityError :: "exn \<Rightarrow> exn" where
  "except_IntegrityError (SqliteError IntegrityError msg) =
     HTTPException CONFLICT (TypeMsg (type_name IntegrityError) msg)"
| "except_IntegrityError e = e"

definition item_deleted :: response where
  "item_deleted = JSONResponse OK (Detail ''Item deleted successfully'')"

definition drop_class ::
  "env \<Rightarrow> int \<Rightarrow> int \<Rightarrow> int \<Rightarrow> connection \<Rightarrow> (exn + response) \<times> connection \<times> call list" where
  "drop_class ev class_id student_id instructor_id db =
     (case drop_class_try ev class_id student_id instructor_id db of
        (Some e, db', calls) \<Rightarrow> (Inl (except_IntegrityError e), db', calls)
      | (None, db', calls) \<Rightarrow> (Inr item_deleted, db', calls))"

text \<open>An enrollment row of the pair is in the tables.\<close>

definition enrolled :: "tables \<Rightarrow> int \<Rightarrow> int \<Rightarrow> bool" where
  "enrolled t class_id student_id =
     list_ex (\<lambda>e. e_class_id e = class_id \<and> e_student_id e = student_id) (enrollment t)"

text \<open>The class row with this id has this instructor.\<close>

definition instructor_of :: "tables \<Rightarrow> int \<Rightarrow> int \<Rightarrow> bool" where
  "instructor_of t class_id instructor_id =
     list_ex (\<lambda>c. c_id c = class_id \<and> c_instructor_id c = instructor_id) (class_tbl t)"

text \<open>The tables after the DELETE and the INSERT of a drop that finds its row.\<close>

definition dropped :: "tables \<Rightarrow> int \<Rightarrow> int \<Rightarrow> int \<Rightarrow> string \<Rightarrow> tables" where
  "dropped t class_id student_id instructor_id ts =
     exec_insert (snd (exec_delete t class_id student_id instructor_id)) class_id student_id ts"

section \<open>Example stores\<close>

text \<open>
  The example of the spec: class 12 of instructor 3, with student 7 enrolled.
\<close>

definition example_tables :: tables where
  "example_tables =
     \<lparr>class_tbl = [\<lparr>c_id = 12, c_instructor_id = 3\<rparr>],
      enrollment = [\<lparr>e_class_id = 12, e_student_id = 7\<rparr>],
      droplist = []\<rparr>"

definition example_db :: connection where
  "example_db = \<lparr>committed = example_tables, working = example_tables\<rparr>"

text \<open>A store that refuses nothing, with auto-enrollment off.\<close>

definition quiet_env :: env where
  "quiet_env =
     \<lparr>now = ''2023-11-20 10:00:00'',
      raises = (\<lambda>c t. None),
      is_auto_enroll_enabled = (\<lambda>db. Inr False),
      enroll_students_from_waitlist = (\<lambda>db cs. (None, db))\<rparr>"

text \<open>
  Auto-enrollment on, with a trigger that enrolls student 9 in every class of its list
  and commits.
\<close>

definition promote_9 :: "connection \<Rightarrow> int list \<Rightarrow> exn option \<times> connection" where
  "promote_9 db cs =
     (None,
      commit (db\<lparr>working := (working db)\<lparr>enrollment :=
                 enrollment (working db) @ map (\<lambda>c. \<lparr>e_class_id = c, e_student_id = 9\<rparr>) cs\<rparr>\<rparr>))"

definition auto_env :: env where
  "auto_env =
     \<lparr>now = ''2023-11-20 10:00:00'',
      raises = (\<lambda>c t. None),
      is_auto_enroll_enabled = (\<lambda>db. Inr True),
      enroll_students_from_waitlist = promote_9\<rparr>"

text \<open>
  A schema in which a pair (class_id, student_id) is unique in the droplist: the INSERT
  of a pair that is there already raises the IntegrityError of SQLite.
\<close>

definition droplist_unique :: "db_call \<Rightarrow> tables \<Rightarrow> exn option" where
  "droplist_unique c t =
     (case c of
        ExecuteInsert class_id student_id \<Rightarrow>
          if list_ex (\<lambda>r. d_class_id r = class_id \<and> d_student_id r = student_id) (droplist t)
          then Some (SqliteError IntegrityError
                      ''UNIQUE constraint failed: droplist.class_id, droplist.student_id'')
          else None
      | _ \<Rightarrow> None)"

definition unique_env :: env where
  "unique_env =
     \<lparr>now = ''2023-11-20 10:00:00'',
      raises = droplist_unique,
      is_auto_enroll_enabled = (\<lambda>db. Inr False),
      enroll_students_from_waitlist = (\<lambda>db cs. (None, db))\<rparr>"

text \<open>Student 7 had dropped class 12 before and is enrolled again.\<close>

definition redropped_tables :: tables where
  "redropped_tables =
     \<lparr>class_tbl = [\<lparr>c_id = 12, c_instructor_id = 3\<rparr>],
      enrollment = [\<lparr>e_class_id = 12, e_student_id = 7\<rparr>],
      droplist = [\<lparr>d_class_id = 12, d_student_id = 7,
                   d_drop_date = ''2023-09-01 08:00:00'', d_administrative = False\<rparr>]\<rparr>"

definition redropped_db :: connection where
  "redropped_db = \<lparr>committed = redropped_tables, working = redropped_tables\<rparr>"

text \<open>A database that another connection has locked: the DELETE raises OperationalError.\<close>

definition locked_env :: env where
  "locked_env =
     \<lparr>now = ''2023-11-20 10:00:00'',
      raises = (\<lambda>c t. case c of
                  ExecuteDelete class_id student_id instructor_id \<Rightarrow>
                    Some (SqliteError OperationalError ''database is locked'')
                | _ \<Rightarrow> None),
      is_auto_enroll_enabled = (\<lambda>db. Inr False),
      enroll_students_from_waitlist = (\<lambda>db cs. (None, db))\<rparr>"

text \<open>A trigger whose own INSERT into enrollment raises an IntegrityError.\<close>

definition failing_trigger_env :: env where
  "failing_trigger_env =
     \<lparr>now = ''2023-11-20 10:00:00'',
      raises = (\<lambda>c t. None),
      is_auto_enroll_enabled = (\<lambda>db. Inr True),
      enroll_students_from_waitlist =
        (\<lambda>db cs. (Some (SqliteError IntegrityError ''FOREIGN KEY constraint failed''), db))\<rparr>"

text \<open>A roster store: class cs101 of term fall, of instructor 3, student 7 enrolled.\<close>

definition example_store :: roster_store where
  "example_store =
     \<lparr>class_items =
        [[(''term'', S ''fall''), (''class'', S ''cs101''), (''instructor_id'', N 3)]],
      enrollment_items =
        [[(''term'', S ''fall''), (''class'', S ''cs101''), (''student_cwid'', N 7)]],
      droplist_items =
        [[(''term'', S ''fall''), (''class'', S ''cs101''), (''student_cwid'', N 5)]]\<rparr>"

definition instructor_3 :: personnel where
  "instructor_3 = \<lparr>cwid = N 3\<rparr>"

definition instructor_4 :: personnel where
  "instructor_4 = \<lparr>cwid = N 4\<rparr>"

definition example_redis :: redis where
  "example_redis name start stop = Inr (if name = ''cs101-fall'' then [''8''] else [])"

text \<open>
  Auto-enrollment on, with a trigger that enrolls student 7 in every class of its list
  and commits: student 7 is the first of the waitlist of the class.
\<close>

definition promote_7 :: "connection \<Rightarrow> int list \<Rightarrow> exn option \<times> connection" where
  "promote_7 db cs =
     (None,
      commit (db\<lparr>working := (working db)\<lparr>enrollment :=
                 enrollment (working db) @ map (\<lambda>c. \<lparr>e_class_id = c, e_student_id = 7\<rparr>) cs\<rparr>\<rparr>))"

definition reenroll_env :: env where
  "reenroll_env =
     \<lparr>now = ''2023-11-20 10:00:00'',
      raises = (\<lambda>c t. None),
      is_auto_enroll_enabled = (\<lambda>db. Inr True),
      enroll_students_from_waitlist = promote_7\<rparr>"




section \<open>Properties of the read handlers\<close>

lemma split_py_not_Nil: "split_py sep s \<noteq> []"
  by (induction s) (auto split: list.splits)

lemma length_split_py: "length (split_py sep s) = Suc (count_list s sep)"
proof (induction s)
  case Nil
  show ?case by simp
next
  case (Cons c cs)
  show ?case
  proof (cases "split_py sep cs")
    case Nil
    with split_py_not_Nil show ?thesis by blast
  next
    case (Cons p ps)
    with Cons.IH show ?thesis by auto
  qed
qed



lemma malformed_length: "count_list s CHR ''_'' \<noteq> 1 \<Longrightarrow> length (split_py CHR ''_'' s) \<noteq> 2"
  by (simp add: length_split_py)

lemma bad_request_is_400:
  "invalid_class_term =
     HTTPException 400 (Text ''invalid class term. class term must be in the format of $term_$class'')"
  by (simp add: invalid_class_term_def BAD_REQUEST_def)

text \<open>
  C7. A path parameter that does not contain exactly one underscore: each of the three
  read handlers raises the 400 and has made no call to a store.
\<close>

theorem malformed_key_bad_request:
  assumes "count_list class_term_slug CHR ''_'' \<noteq> 1"
  shows "get_current_enrollment class_term_slug db user = (Inl invalid_class_term, [])
       \<and> get_waitlist class_term_slug db db_redis user = (Inl invalid_class_term, [])
       \<and> get_droplist class_term_slug db user = (Inl invalid_class_term, [])
       \<and> (\<exists>d. invalid_class_term = HTTPException 400 d)"
proof -
  from assms have len: "length (split_py CHR ''_'' class_term_slug) \<noteq> 2"
    by (rule malformed_length)
  have a: "get_current_enrollment class_term_slug db user = (Inl invalid_class_term, [])"
    using len by (simp add: get_current_enrollment_def Let_def)
  have b: "get_waitlist class_term_slug db db_redis user = (Inl invalid_class_term, [])"
    using len by (simp add: get_waitlist_def Let_def)
  have c: "get_droplist class_term_slug db user = (Inl invalid_class_term, [])"
    using len by (simp add: get_droplist_def Let_def)
  have d: "\<exists>d. invalid_class_term = HTTPException 400 d"
    by (simp add: bad_request_is_400)
  from a b c d show ?thesis by simp
qed

text \<open>The key \<^verbatim>\<open>fall2023cs101\<close> has no underscore.\<close>

theorem malformed_key_bad_request_witness:
  "count_list ''fall2023cs101'' CHR ''_'' \<noteq> 1
   \<and> get_current_enrollment ''fall2023cs101'' (store_query example_store) instructor_3
       = (Inl invalid_class_term, [])
   \<and> get_waitlist ''fall2023cs101'' (store_query example_store) example_redis instructor_3
       = (Inl invalid_class_term, [])
   \<and> get_droplist ''fall2023cs101'' (store_query example_store) instructor_3
       = (Inl invalid_class_term, [])"
proof -
  have h: "count_list ''fall2023cs101'' CHR ''_'' \<noteq> 1" by simp
  show ?thesis
    using h malformed_key_bad_request [OF h, of "store_query example_store" instructor_3 example_redis]
    by simp
qed


lemma not_found_is_404:
  "class_not_found = HTTPException 404 (Text ''class information not found'')"
  by (simp add: class_not_found_def NOT_FOUND_def)

lemma get_current_enrollment_wf:
  assumes "split_py CHR ''_'' slug = [term, class']"
  shows "get_current_enrollment slug db user =
     (let q1 = query_class_information_params term class' user in
         (case db ''class'' q1 of
            Inl e \<Rightarrow> (Inl e, [Query ''class'' q1])
          | Inr class_information \<Rightarrow>
              if class_information = [] then (Inl class_not_found, [Query ''class'' q1])
              else
                (let q2 = query_class_enrollment_params term class' in
                 (case db ''enrollment'' q2 of
                    Inl e \<Rightarrow> (Inl e, [Query ''class'' q1, Query ''enrollment'' q2])
                  | Inr class_enrollment \<Rightarrow>
                      (case to_entries ''cwid'' class_enrollment of
                         Inl e \<Rightarrow> (Inl e, [Query ''class'' q1, Query ''enrollment'' q2])
                       | Inr response \<Rightarrow>
                           (Inr (JSONResponse OK (Data response)),
                            [Query ''class'' q1, Query ''enrollment'' q2]))))))"
  using assms by (simp add: get_current_enrollment_def Let_def)

lemma get_waitlist_wf:
  assumes "split_py CHR ''_'' slug = [term, class']"
  shows "get_waitlist slug db db_redis user =
     (let q1 = query_class_information_params term class' user in
         (case db ''class'' q1 of
            Inl e \<Rightarrow> (Inl e, [Query ''class'' q1])
          | Inr class_information \<Rightarrow>
              if class_information = [] then (Inl class_not_found, [Query ''class'' q1])
              else
                (let set_name = class' @ ''-'' @ term in
                 (case db_redis set_name 0 15 of
                    Inl e \<Rightarrow> (Inl e, [Query ''class'' q1, ZRange set_name 0 15])
                  | Inr waitlist_information \<Rightarrow>
                      (Inr (JSONResponse OK
                             (Data (map (\<lambda>x. (''student_cwid'', x)) waitlist_information))),
                       [Query ''class'' q1, ZRange set_name 0 15])))))"
  using assms by (simp add: get_waitlist_def Let_def)

lemma get_droplist_wf:
  assumes "split_py CHR ''_'' slug = [term, class']"
  shows "get_droplist slug db user =
     (let q1 = query_class_information_params term class' user in
         (case db ''class'' q1 of
            Inl e \<Rightarrow> (Inl e, [Query ''class'' q1])
          | Inr class_information \<Rightarrow>
              if class_information = [] then (Inl class_not_found, [Query ''class'' q1])
              else
                (let q2 = query_dropped_students_params term class' in
                 (case db ''droplist'' q2 of
                    Inl e \<Rightarrow> (Inl e, [Query ''class'' q1, Query ''droplist'' q2])
                  | Inr class_dropped_students \<Rightarrow>
                      (case to_entries ''student_cwid'' class_dropped_students of
                         Inl e \<Rightarrow> (Inl e, [Query ''class'' q1, Query ''droplist'' q2])
                       | Inr response \<Rightarrow>
                           (Inr (JSONResponse OK (Data response)),
                            [Query ''class'' q1, Query ''droplist'' q2]))))))"
  using assms by (simp add: get_droplist_def Let_def)




lemma roster_no_match:
  assumes "split_py CHR ''_'' slug = [term, class']"
    and "db ''class'' (query_class_information_params term class' user) = Inr []"
  shows "get_current_enrollment slug db user
           = (Inl class_not_found, [Query ''class'' (query_class_information_params term class' user)])"
  using assms(2) by (simp add: get_current_enrollment_wf [OF assms(1)] Let_def)

lemma waitlist_no_match:
  assumes "split_py CHR ''_'' slug = [term, class']"
    and "db ''class'' (query_class_information_params term class' user) = Inr []"
  shows "get_waitlist slug db db_redis user
           = (Inl class_not_found, [Query ''class'' (query_class_information_params term class' user)])"
  using assms(2) by (simp add: get_waitlist_wf [OF assms(1)] Let_def)

lemma droplist_no_match:
  assumes "split_py CHR ''_'' slug = [term, class']"
    and "db ''class'' (query_class_information_params term class' user) = Inr []"
  shows "get_droplist slug db user
           = (Inl class_not_found, [Query ''class'' (query_class_information_params term class' user)])"
  using assms(2) by (simp add: get_droplist_wf [OF assms(1)] Let_def)

text \<open>A string with exactly one underscore is two components around it.\<close>

lemma one_underscore_decomposition:
  "count_list s sep = 1 \<Longrightarrow> \<exists>t c. s = t @ sep # c \<and> sep \<notin> set t \<and> sep \<notin> set c"
proof (induction s)
  case Nil
  then show ?case by simp
next
  case (Cons x xs)
  show ?case
  proof (cases "x = sep")
    case True
    with Cons.prems have "count_list xs sep = 0" by simp
    then have "sep \<notin> set xs" by (simp add: count_list_0_iff)
    with True have "x # xs = [] @ sep # xs \<and> sep \<notin> set [] \<and> sep \<notin> set xs" by simp
    then show ?thesis by blast
  next
    case False
    with Cons.prems have "count_list xs sep = 1" by simp
    from Cons.IH [OF this] obtain t c where "xs = t @ sep # c" "sep \<notin> set t" "sep \<notin> set c"
      by blast
    with False have "x # xs = (x # t) @ sep # c \<and> sep \<notin> set (x # t) \<and> sep \<notin> set c" by simp
    then show ?thesis by blast
  qed
qed


lemma class_query_empty_iff:
  "store_query st ''class'' (query_class_information_params term class' user) = Inr xs
   \<Longrightarrow> xs = [] \<longleftrightarrow> \<not> owns_class st term class' user"
  by (auto simp: store_query_def table_of_def query_class_information_params_def satisfies_def
      owns_class_def project_def filter_empty_conv list_ex_iff)

lemma class_query_total:
  "\<exists>xs. store_query st ''class'' (query_class_information_params term class' user) = Inr xs"
  by (simp add: store_query_def table_of_def)


text \<open>The three keys with an empty component that the claim names.\<close>

lemma empty_component_splits:
  "split_py CHR ''_'' ''_'' = [[], []]
   \<and> split_py CHR ''_'' ''fall_'' = [''fall'', []]
   \<and> split_py CHR ''_'' ''_cs101'' = [[], ''cs101'']"
  by simp

text \<open>
  C8. For a well-formed key, on a roster store with the query semantics of the spec:
  a read handler returns a response only when a class item with the key has the
  caller as its instructor, and raises the 404 whenever there is no such item.
\<close>

theorem owner_only_reads:
  assumes "split_py CHR ''_'' slug = [term, class']"
  shows "(\<forall>r. fst (get_current_enrollment slug (store_query st) user) = Inr r
              \<longrightarrow> owns_class st term class' user)
    \<and> (\<forall>r. fst (get_waitlist slug (store_query st) db_redis user) = Inr r
              \<longrightarrow> owns_class st term class' user)
    \<and> (\<forall>r. fst (get_droplist slug (store_query st) user) = Inr r
              \<longrightarrow> owns_class st term class' user)
    \<and> (\<not> owns_class st term class' user \<longrightarrow>
         fst (get_current_enrollment slug (store_query st) user) = Inl class_not_found
       \<and> fst (get_waitlist slug (store_query st) db_redis user) = Inl class_not_found
       \<and> fst (get_droplist slug (store_query st) user) = Inl class_not_found)
    \<and> class_not_found = HTTPException 404 (Text ''class information not found'')"
proof -
  obtain xs where xs: "store_query st ''class'' (query_class_information_params term class' user) = Inr xs"
    using class_query_total by blast
  have e: "xs = [] \<longleftrightarrow> \<not> owns_class st term class' user"
    using xs by (rule class_query_empty_iff)
  have nf: "\<not> owns_class st term class' user \<longrightarrow>
         fst (get_current_enrollment slug (store_query st) user) = Inl class_not_found
       \<and> fst (get_waitlist slug (store_query st) db_redis user) = Inl class_not_found
       \<and> fst (get_droplist slug (store_query st) user) = Inl class_not_found"
    using xs e
    by (simp add: roster_no_match [OF assms] waitlist_no_match [OF assms]
        droplist_no_match [OF assms])
  have a: "\<forall>r. fst (get_current_enrollment slug (store_query st) user) = Inr r
              \<longrightarrow> owns_class st term class' user"
    using nf by (cases "owns_class st term class' user") simp_all
  have b: "\<forall>r. fst (get_waitlist slug (store_query st) db_redis user) = Inr r
              \<longrightarrow> owns_class st term class' user"
    using nf by (cases "owns_class st term class' user") simp_all
  have c: "\<forall>r. fst (get_droplist slug (store_query st) user) = Inr r
              \<longrightarrow> owns_class st term class' user"
    using nf by (cases "owns_class st term class' user") simp_all
  from a b c nf not_found_is_404 show ?thesis by blast
qed

text \<open>Instructor 3 owns cs101 of term fall, instructor 4 does not.\<close>

theorem owner_only_reads_witness:
  "split_py CHR ''_'' ''fall_cs101'' = [''fall'', ''cs101'']
   \<and> owns_class example_store ''fall'' ''cs101'' instructor_3
   \<and> fst (get_current_enrollment ''fall_cs101'' (store_query example_store) instructor_3)
       = Inr (JSONResponse 200 (Data [(''cwid'', ''7'')]))
   \<and> \<not> owns_class example_store ''fall'' ''cs101'' instructor_4
   \<and> fst (get_current_enrollment ''fall_cs101'' (store_query example_store) instructor_4)
       = Inl class_not_found
   \<and> fst (get_waitlist ''fall_cs101'' (store_query example_store) example_redis instructor_4)
       = Inl class_not_found
   \<and> fst (get_droplist ''fall_cs101'' (store_query example_store) instructor_4)
       = Inl class_not_found"
proof -
  have h: "split_py CHR ''_'' ''fall_cs101'' = [''fall'', ''cs101'']" by simp
  have o3: "owns_class example_store ''fall'' ''cs101'' instructor_3"
    by (simp add: owns_class_def example_store_def instructor_3_def)
  have o4: "\<not> owns_class example_store ''fall'' ''cs101'' instructor_4"
    by (simp add: owns_class_def example_store_def instructor_4_def)
  have q1: "store_query example_store ''class''
              (query_class_information_params ''fall'' ''cs101'' instructor_3)
            = Inr [[(''term'', S ''fall''), (''class'', S ''cs101''), (''instructor_id'', N 3)]]"
    by (simp add: store_query_def table_of_def example_store_def
        query_class_information_params_def satisfies_def project_def instructor_3_def)
  have q2: "store_query example_store ''enrollment''
              (query_class_enrollment_params ''fall'' ''cs101'')
            = Inr [[(''student_cwid'', N 7)]]"
    by (simp add: store_query_def table_of_def example_store_def
        query_class_enrollment_params_def satisfies_def project_def)
  have s7: "str_int 7 = ''7''"
    by (simp add: str_int_def str_nat.simps)
  have r: "fst (get_current_enrollment ''fall_cs101'' (store_query example_store) instructor_3)
       = Inr (JSONResponse 200 (Data [(''cwid'', ''7'')]))"
    by (simp add: get_current_enrollment_wf [OF h] Let_def q1 q2 s7 OK_def)
  note t = owner_only_reads [OF h, of example_store instructor_4 example_redis]
  from t o4 have n:
    "fst (get_current_enrollment ''fall_cs101'' (store_query example_store) instructor_4)
       = Inl class_not_found
     \<and> fst (get_waitlist ''fall_cs101'' (store_query example_store) example_redis instructor_4)
       = Inl class_not_found
     \<and> fst (get_droplist ''fall_cs101'' (store_query example_store) instructor_4)
       = Inl class_not_found"
    by blast
  from h o3 o4 r n show ?thesis by blast
qed

section \<open>Properties of the administrative drop\<close>

subsection \<open>The two statements\<close>

lemma owned_class_ids_iff:
  "x \<in> set (owned_class_ids t class_id instructor_id)
     \<longleftrightarrow> x = class_id \<and> instructor_of t class_id instructor_id"
  by (auto simp: owned_class_ids_def instructor_of_def list_ex_iff)

lemma delete_where_iff:
  "delete_where t class_id student_id instructor_id e
     \<longleftrightarrow> e_class_id e = class_id \<and> e_student_id e = student_id
          \<and> instructor_of t class_id instructor_id"
  by (auto simp: delete_where_def owned_class_ids_iff)

lemma rowcount_zero_iff:
  "fst (exec_delete t class_id student_id instructor_id) = 0
     \<longleftrightarrow> \<not> (enrolled t class_id student_id \<and> instructor_of t class_id instructor_id)"
  by (auto simp: exec_delete_def delete_where_iff enrolled_def list_ex_iff filter_empty_conv)

lemma exec_delete_nothing:
  assumes "fst (exec_delete t class_id student_id instructor_id) = 0"
  shows "snd (exec_delete t class_id student_id instructor_id) = t"
proof -
  from assms have "\<forall>e\<in>set (enrollment t). \<not> delete_where t class_id student_id instructor_id e"
    by (simp add: exec_delete_def filter_empty_conv)
  then have "filter (\<lambda>e. \<not> delete_where t class_id student_id instructor_id e) (enrollment t)
               = enrollment t"
    by (simp add: filter_id_conv)
  then show ?thesis by (simp add: exec_delete_def)
qed

lemma exec_delete_enrollment:
  "instructor_of t class_id instructor_id \<Longrightarrow>
   enrollment (snd (exec_delete t class_id student_id instructor_id))
     = filter (\<lambda>e. \<not> (e_class_id e = class_id \<and> e_student_id e = student_id)) (enrollment t)"
  by (simp add: exec_delete_def delete_where_iff)

lemma exec_delete_others:
  "class_tbl (snd (exec_delete t class_id student_id instructor_id)) = class_tbl t"
  "droplist (snd (exec_delete t class_id student_id instructor_id)) = droplist t"
  by (simp_all add: exec_delete_def)

lemma not_enrolled_after_delete:
  "instructor_of t class_id instructor_id \<Longrightarrow>
   \<not> enrolled (snd (exec_delete t class_id student_id instructor_id)) class_id student_id"
  by (simp add: enrolled_def exec_delete_enrollment list_ex_iff)

lemma dropped_tables:
  "class_tbl (dropped t class_id student_id instructor_id ts) = class_tbl t"
  "droplist (dropped t class_id student_id instructor_id ts) =
     droplist t @ [\<lparr>d_class_id = class_id, d_student_id = student_id,
                    d_drop_date = ts, d_administrative = True\<rparr>]"
  "enrollment (dropped t class_id student_id instructor_id ts) =
     enrollment (snd (exec_delete t class_id student_id instructor_id))"
  by (simp_all add: dropped_def exec_insert_def exec_delete_def)

lemma not_found_404: "record_not_found = HTTPException 404 (Text ''Record Not Found'')"
  by (simp add: record_not_found_def NOT_FOUND_def)

lemma item_deleted_200: "item_deleted = JSONResponse 200 (Detail ''Item deleted successfully'')"
  by (simp add: item_deleted_def OK_def)

text \<open>The five ways through the transaction.\<close>

lemma txn_delete_raises:
  assumes "raises ev (ExecuteDelete class_id student_id instructor_id) (working db) = Some e"
  shows "drop_transaction ev class_id student_id instructor_id db
           = (Some e, db, [Db (ExecuteDelete class_id student_id instructor_id)])"
  using assms by (simp add: drop_transaction_def)

lemma txn_zero_rows:
  assumes "raises ev (ExecuteDelete class_id student_id instructor_id) (working db) = None"
    and "fst (exec_delete (working db) class_id student_id instructor_id) = 0"
  shows "drop_transaction ev class_id student_id instructor_id db
           = (Some record_not_found, db, [Db (ExecuteDelete class_id student_id instructor_id)])"
  using assms by (simp add: drop_transaction_def Let_def exec_delete_nothing)

lemma txn_insert_raises:
  assumes "raises ev (ExecuteDelete class_id student_id instructor_id) (working db) = None"
    and "fst (exec_delete (working db) class_id student_id instructor_id) \<noteq> 0"
    and "raises ev (ExecuteInsert class_id student_id)
           (snd (exec_delete (working db) class_id student_id instructor_id)) = Some e"
  shows "drop_transaction ev class_id student_id instructor_id db
           = (Some e,
              db\<lparr>working := snd (exec_delete (working db) class_id student_id instructor_id)\<rparr>,
              [Db (ExecuteDelete class_id student_id instructor_id),
               Db (ExecuteInsert class_id student_id)])"
  using assms by (simp add: drop_transaction_def Let_def)

lemma txn_commit_raises:
  assumes "raises ev (ExecuteDelete class_id student_id instructor_id) (working db) = None"
    and "fst (exec_delete (working db) class_id student_id instructor_id) \<noteq> 0"
    and "raises ev (ExecuteInsert class_id student_id)
           (snd (exec_delete (working db) class_id student_id instructor_id)) = None"
    and "raises ev Commit (dropped (working db) class_id student_id instructor_id (now ev)) = Some e"
  shows "drop_transaction ev class_id student_id instructor_id db
           = (Some e,
              db\<lparr>working := dropped (working db) class_id student_id instructor_id (now ev)\<rparr>,
              [Db (ExecuteDelete class_id student_id instructor_id),
               Db (ExecuteInsert class_id student_id), Db Commit])"
  using assms by (simp add: drop_transaction_def Let_def dropped_def)

lemma txn_commits:
  assumes "raises ev (ExecuteDelete class_id student_id instructor_id) (working db) = None"
    and "fst (exec_delete (working db) class_id student_id instructor_id) \<noteq> 0"
    and "raises ev (ExecuteInsert class_id student_id)
           (snd (exec_delete (working db) class_id student_id instructor_id)) = None"
    and "raises ev Commit (dropped (working db) class_id student_id instructor_id (now ev)) = None"
  shows "drop_transaction ev class_id student_id instructor_id db
           = (None,
              db\<lparr>committed := dropped (working db) class_id student_id instructor_id (now ev),
                 working := dropped (working db) class_id student_id instructor_id (now ev)\<rparr>,
              [Db (ExecuteDelete class_id student_id instructor_id),
               Db (ExecuteInsert class_id student_id), Db Commit])"
  using assms by (simp add: drop_transaction_def Let_def dropped_def commit_def)

text \<open>Every run of the transaction is one of the five.\<close>

lemma txn_cases:
  obtains
    (delete_raises) e where
      "raises ev (ExecuteDelete class_id student_id instructor_id) (working db) = Some e"
  | (zero_rows)
      "raises ev (ExecuteDelete class_id student_id instructor_id) (working db) = None"
      "fst (exec_delete (working db) class_id student_id instructor_id) = 0"
  | (insert_raises) e where
      "raises ev (ExecuteDelete class_id student_id instructor_id) (working db) = None"
      "fst (exec_delete (working db) class_id student_id instructor_id) \<noteq> 0"
      "raises ev (ExecuteInsert class_id student_id)
         (snd (exec_delete (working db) class_id student_id instructor_id)) = Some e"
  | (commit_raises) e where
      "raises ev (ExecuteDelete class_id student_id instructor_id) (working db) = None"
      "fst (exec_delete (working db) class_id student_id instructor_id) \<noteq> 0"
      "raises ev (ExecuteInsert class_id student_id)
         (snd (exec_delete (working db) class_id student_id instructor_id)) = None"
      "raises ev Commit (dropped (working db) class_id student_id instructor_id (now ev)) = Some e"
  | (commits)
      "raises ev (ExecuteDelete class_id student_id instructor_id) (working db) = None"
      "fst (exec_delete (working db) class_id student_id instructor_id) \<noteq> 0"
      "raises ev (ExecuteInsert class_id student_id)
         (snd (exec_delete (working db) class_id student_id instructor_id)) = None"
      "raises ev Commit (dropped (working db) class_id student_id instructor_id (now ev)) = None"
  by (cases "raises ev (ExecuteDelete class_id student_id instructor_id) (working db)";
      cases "fst (exec_delete (working db) class_id student_id instructor_id) = 0";
      cases "raises ev (ExecuteInsert class_id student_id)
         (snd (exec_delete (working db) class_id student_id instructor_id))";
      cases "raises ev Commit (dropped (working db) class_id student_id instructor_id (now ev))")
     auto

lemma drop_class_of_txn_failure:
  assumes "drop_transaction ev class_id student_id instructor_id db = (Some e, db1, calls)"
  shows "drop_class ev class_id student_id instructor_id db = (Inl (except_IntegrityError e), db1, calls)"
  using assms by (simp add: drop_class_def drop_class_try_def)

lemma drop_class_zero_rows:
  assumes "raises ev (ExecuteDelete class_id student_id instructor_id) (working db) = None"
    and "fst (exec_delete (working db) class_id student_id instructor_id) = 0"
  shows "drop_class ev class_id student_id instructor_id db
           = (Inl record_not_found, db, [Db (ExecuteDelete class_id student_id instructor_id)])"
  using drop_class_of_txn_failure [OF txn_zero_rows [OF assms]]
  by (simp add: record_not_found_def)


lemma txn_success:
  assumes "drop_transaction ev class_id student_id instructor_id db = (None, db1, calls)"
  shows "raises ev (ExecuteDelete class_id student_id instructor_id) (working db) = None
       \<and> fst (exec_delete (working db) class_id student_id instructor_id) \<noteq> 0
       \<and> db1 = db\<lparr>committed := dropped (working db) class_id student_id instructor_id (now ev),
                    working := dropped (working db) class_id student_id instructor_id (now ev)\<rparr>
       \<and> calls = [Db (ExecuteDelete class_id student_id instructor_id),
                   Db (ExecuteInsert class_id student_id), Db Commit]"
proof (cases rule: txn_cases [of ev class_id student_id instructor_id db])
  case (delete_raises e)
  from txn_delete_raises [OF this] assms show ?thesis by auto
next
  case zero_rows
  from txn_zero_rows [OF this] assms show ?thesis by auto
next
  case (insert_raises e)
  from txn_insert_raises [OF this] assms show ?thesis by auto
next
  case (commit_raises e)
  from txn_commit_raises [OF this] assms show ?thesis by auto
next
  case commits
  from txn_commits [OF this] assms commits show ?thesis by auto
qed

subsection \<open>The example stores\<close>

lemma example_db_working: "working example_db = example_tables" "committed example_db = example_tables"
  by (simp_all add: example_db_def)

lemma redropped_db_working: "working redropped_db = redropped_tables" "committed redropped_db = redropped_tables"
  by (simp_all add: redropped_db_def)

lemma example_enrolled: "enrolled example_tables 12 7"
  by (simp add: enrolled_def example_tables_def)

lemma example_instructor: "instructor_of example_tables 12 3" "\<not> instructor_of example_tables 12 4"
  by (simp_all add: instructor_of_def example_tables_def)

lemma redropped_enrolled: "enrolled redropped_tables 12 7"
  by (simp add: enrolled_def redropped_tables_def)

lemma redropped_instructor: "instructor_of redropped_tables 12 3"
  by (simp add: instructor_of_def redropped_tables_def)

subsection \<open>The drop\<close>

text \<open>
  C4. When the DELETE runs and removes no row, which is when the pair is not enrolled or
  the class is not a class of the instructor (a class that does not exist is not one),
  the drop raises the 404, makes no other call, and leaves the connection as it was:
  the committed tables and the tables the connection sees are those before the call.
\<close>

theorem drop_zero_rows_not_found:
  assumes "raises ev (ExecuteDelete class_id student_id instructor_id) (working db) = None"
    and "\<not> (enrolled (working db) class_id student_id
            \<and> instructor_of (working db) class_id instructor_id)"
  shows "fst (exec_delete (working db) class_id student_id instructor_id) = 0
       \<and> drop_class ev class_id student_id instructor_id db
           = (Inl record_not_found, db, [Db (ExecuteDelete class_id student_id instructor_id)])
       \<and> record_not_found = HTTPException 404 (Text ''Record Not Found'')"
proof -
  from assms(2) have z: "fst (exec_delete (working db) class_id student_id instructor_id) = 0"
    by (simp add: rowcount_zero_iff)
  from z drop_class_zero_rows [OF assms(1) z] not_found_404 show ?thesis by simp
qed

text \<open>Instructor 4 drops student 7 from class 12, a class of instructor 3.\<close>

theorem drop_zero_rows_not_found_witness:
  "raises quiet_env (ExecuteDelete 12 7 4) (working example_db) = None
   \<and> enrolled (working example_db) 12 7
   \<and> \<not> instructor_of (working example_db) 12 4
   \<and> drop_class quiet_env 12 7 4 example_db
       = (Inl record_not_found, example_db, [Db (ExecuteDelete 12 7 4)])"
proof -
  have r: "raises quiet_env (ExecuteDelete 12 7 4) (working example_db) = None"
    by (simp add: quiet_env_def)
  have n: "\<not> (enrolled (working example_db) 12 7 \<and> instructor_of (working example_db) 12 4)"
    by (simp add: example_db_working example_instructor)
  from drop_zero_rows_not_found [OF r n] r example_enrolled example_instructor
  show ?thesis by (simp add: example_db_working)
qed

text \<open>
  A second drop of a pair, under a schema where the pair is unique in the droplist: the
  DELETE removes the enrollment row, the INSERT raises.
\<close>

lemma unique_txn:
  "drop_transaction unique_env 12 7 3 redropped_db
     = (Some (SqliteError IntegrityError
               ''UNIQUE constraint failed: droplist.class_id, droplist.student_id''),
        redropped_db\<lparr>working := snd (exec_delete (working redropped_db) 12 7 3)\<rparr>,
        [Db (ExecuteDelete 12 7 3), Db (ExecuteInsert 12 7)])"
proof (rule txn_insert_raises)
  show "raises unique_env (ExecuteDelete 12 7 3) (working redropped_db) = None"
    by (simp add: unique_env_def droplist_unique_def)
  show "fst (exec_delete (working redropped_db) 12 7 3) \<noteq> 0"
    by (simp add: rowcount_zero_iff redropped_db_working redropped_enrolled redropped_instructor)
  show "raises unique_env (ExecuteInsert 12 7) (snd (exec_delete (working redropped_db) 12 7 3))
          = Some (SqliteError IntegrityError
                   ''UNIQUE constraint failed: droplist.class_id, droplist.student_id'')"
    by (simp add: unique_env_def droplist_unique_def exec_delete_others redropped_db_working
        redropped_tables_def)
qed

lemma unique_drop_class:
  "drop_class unique_env 12 7 3 redropped_db
     = (Inl (HTTPException 409 (TypeMsg ''IntegrityError''
               ''UNIQUE constraint failed: droplist.class_id, droplist.student_id'')),
        redropped_db\<lparr>working := snd (exec_delete (working redropped_db) 12 7 3)\<rparr>,
        [Db (ExecuteDelete 12 7 3), Db (ExecuteInsert 12 7)])"
  using drop_class_of_txn_failure [OF unique_txn] by (simp add: CONFLICT_def)

text \<open>
  C1 as stated fails: the pair (12, 7) is enrolled and class 12 is a class of instructor
  3, yet the drop raises the 409 and commits nothing.
\<close>

theorem enrolled_owned_drop_conflict:
  "enrolled (working redropped_db) 12 7
   \<and> instructor_of (working redropped_db) 12 3
   \<and> fst (drop_class unique_env 12 7 3 redropped_db)
       = Inl (HTTPException 409 (TypeMsg ''IntegrityError''
               ''UNIQUE constraint failed: droplist.class_id, droplist.student_id''))
   \<and> fst (drop_class unique_env 12 7 3 redropped_db) \<noteq> Inr item_deleted
   \<and> committed (fst (snd (drop_class unique_env 12 7 3 redropped_db))) = committed redropped_db"
  by (simp add: unique_drop_class redropped_db_working redropped_enrolled redropped_instructor)

text \<open>
  C1, amended. When the pair is enrolled, the class is a class of the instructor, the
  store refuses none of the DELETE, the INSERT and the commit, and the step after the
  commit raises nothing: the drop returns the 200 body; the tables it commits are the
  tables before the call without the enrollment rows of the pair and with exactly one
  more droplist row, the last one, which has the pair, the timestamp and
  administrative true; one commit follows the two statements; the connection returned
  is what the step after the commit makes of the committed one.
\<close>

theorem drop_on_owned_enrollment:
  assumes "enrolled (working db) class_id student_id"
    and "instructor_of (working db) class_id instructor_id"
    and "raises ev (ExecuteDelete class_id student_id instructor_id) (working db) = None"
    and "raises ev (ExecuteInsert class_id student_id)
           (snd (exec_delete (working db) class_id student_id instructor_id)) = None"
    and "raises ev Commit (dropped (working db) class_id student_id instructor_id (now ev)) = None"
    and "fst (trigger_auto_enrollment ev class_id
           (db\<lparr>committed := dropped (working db) class_id student_id instructor_id (now ev),
               working := dropped (working db) class_id student_id instructor_id (now ev)\<rparr>)) = None"
  shows "fst (drop_class ev class_id student_id instructor_id db) = Inr item_deleted
    \<and> item_deleted = JSONResponse 200 (Detail ''Item deleted successfully'')
    \<and> fst (snd (drop_class ev class_id student_id instructor_id db))
        = fst (snd (trigger_auto_enrollment ev class_id
            (db\<lparr>committed := dropped (working db) class_id student_id instructor_id (now ev),
                working := dropped (working db) class_id student_id instructor_id (now ev)\<rparr>)))
    \<and> snd (snd (drop_class ev class_id student_id instructor_id db))
        = [Db (ExecuteDelete class_id student_id instructor_id),
           Db (ExecuteInsert class_id student_id), Db Commit]
          @ snd (snd (trigger_auto_enrollment ev class_id
            (db\<lparr>committed := dropped (working db) class_id student_id instructor_id (now ev),
                working := dropped (working db) class_id student_id instructor_id (now ev)\<rparr>)))
    \<and> \<not> enrolled (dropped (working db) class_id student_id instructor_id (now ev))
            class_id student_id
    \<and> enrollment (dropped (working db) class_id student_id instructor_id (now ev))
        = filter (\<lambda>e. \<not> (e_class_id e = class_id \<and> e_student_id e = student_id))
            (enrollment (working db))
    \<and> droplist (dropped (working db) class_id student_id instructor_id (now ev))
        = droplist (working db)
          @ [\<lparr>d_class_id = class_id, d_student_id = student_id,
               d_drop_date = now ev, d_administrative = True\<rparr>]
    \<and> class_tbl (dropped (working db) class_id student_id instructor_id (now ev))
        = class_tbl (working db)"
proof -
  let ?t = "dropped (working db) class_id student_id instructor_id (now ev)"
  let ?dbc = "db\<lparr>committed := ?t, working := ?t\<rparr>"
  from assms(1,2) have nz: "fst (exec_delete (working db) class_id student_id instructor_id) \<noteq> 0"
    by (simp add: rowcount_zero_iff)
  note txn = txn_commits [OF assms(3) nz assms(4) assms(5)]
  obtain r db2 calls' where tr: "trigger_auto_enrollment ev class_id ?dbc = (r, db2, calls')"
    by (cases "trigger_auto_enrollment ev class_id ?dbc") auto
  from assms(6) tr have r: "r = None" by simp
  have dc: "drop_class ev class_id student_id instructor_id db
              = (Inr item_deleted, db2,
                 [Db (ExecuteDelete class_id student_id instructor_id),
                  Db (ExecuteInsert class_id student_id), Db Commit] @ calls')"
    using txn tr r by (simp add: drop_class_def drop_class_try_def)
  have a: "fst (drop_class ev class_id student_id instructor_id db) = Inr item_deleted"
    by (simp add: dc)
  have b: "fst (snd (drop_class ev class_id student_id instructor_id db))
             = fst (snd (trigger_auto_enrollment ev class_id ?dbc))"
    by (simp add: dc tr)
  have c: "snd (snd (drop_class ev class_id student_id instructor_id db))
        = [Db (ExecuteDelete class_id student_id instructor_id),
           Db (ExecuteInsert class_id student_id), Db Commit]
          @ snd (snd (trigger_auto_enrollment ev class_id ?dbc))"
    by (simp add: dc tr)
  have d: "\<not> enrolled ?t class_id student_id"
    using not_enrolled_after_delete [OF assms(2), of student_id]
    by (simp add: enrolled_def dropped_tables)
  have e: "enrollment ?t
        = filter (\<lambda>e. \<not> (e_class_id e = class_id \<and> e_student_id e = student_id))
            (enrollment (working db))"
    by (simp add: dropped_tables exec_delete_enrollment [OF assms(2)])
  have f: "droplist ?t = droplist (working db)
          @ [\<lparr>d_class_id = class_id, d_student_id = student_id,
               d_drop_date = now ev, d_administrative = True\<rparr>]"
    by (simp add: dropped_tables)
  have g: "class_tbl ?t = class_tbl (working db)"
    by (simp add: dropped_tables)
  from a item_deleted_200 b c d e f g show ?thesis by blast
qed

text \<open>The example of the spec, with auto-enrollment on.\<close>

theorem drop_on_owned_enrollment_witness:
  "enrolled (working example_db) 12 7
   \<and> instructor_of (working example_db) 12 3
   \<and> fst (drop_class auto_env 12 7 3 example_db) = Inr item_deleted
   \<and> \<not> enrolled (dropped (working example_db) 12 7 3 (now auto_env)) 12 7
   \<and> droplist (dropped (working example_db) 12 7 3 (now auto_env))
       = [\<lparr>d_class_id = 12, d_student_id = 7,
            d_drop_date = ''2023-11-20 10:00:00'', d_administrative = True\<rparr>]"
proof -
  have h1: "enrolled (working example_db) 12 7"
    by (simp add: example_db_working example_enrolled)
  have h2: "instructor_of (working example_db) 12 3"
    by (simp add: example_db_working example_instructor)
  have h3: "raises auto_env (ExecuteDelete 12 7 3) (working example_db) = None"
    by (simp add: auto_env_def)
  have h4: "raises auto_env (ExecuteInsert 12 7) (snd (exec_delete (working example_db) 12 7 3)) = None"
    by (simp add: auto_env_def)
  have h5: "raises auto_env Commit (dropped (working example_db) 12 7 3 (now auto_env)) = None"
    by (simp add: auto_env_def)
  have h6: "fst (trigger_auto_enrollment auto_env 12
           (example_db\<lparr>committed := dropped (working example_db) 12 7 3 (now auto_env),
               working := dropped (working example_db) 12 7 3 (now auto_env)\<rparr>)) = None"
    by (simp add: trigger_auto_enrollment_def auto_env_def promote_9_def)
  have d: "droplist (working example_db) = []" "now auto_env = ''2023-11-20 10:00:00''"
    by (simp_all add: example_db_working example_tables_def auto_env_def)
  from drop_on_owned_enrollment [OF h1 h2 h3 h4 h5 h6] h1 h2 d show ?thesis
    by simp
qed




text \<open>
  A 409 can also follow the commit: an IntegrityError of the trigger is caught by the
  same handler, and the drop stays committed.
\<close>

lemma conflict_after_commit:
  "fst (drop_class failing_trigger_env 12 7 3 example_db)
     = Inl (HTTPException 409 (TypeMsg ''IntegrityError'' ''FOREIGN KEY constraint failed''))
   \<and> committed (fst (snd (drop_class failing_trigger_env 12 7 3 example_db)))
       = dropped example_tables 12 7 3 ''2023-11-20 10:00:00''
   \<and> \<not> enrolled (committed (fst (snd (drop_class failing_trigger_env 12 7 3 example_db)))) 12 7"
proof -
  have h3: "raises failing_trigger_env (ExecuteDelete 12 7 3) (working example_db) = None"
    by (simp add: failing_trigger_env_def)
  have nz: "fst (exec_delete (working example_db) 12 7 3) \<noteq> 0"
    by (simp add: rowcount_zero_iff example_db_working example_enrolled example_instructor)
  have h4: "raises failing_trigger_env (ExecuteInsert 12 7)
              (snd (exec_delete (working example_db) 12 7 3)) = None"
    by (simp add: failing_trigger_env_def)
  have h5: "raises failing_trigger_env Commit
              (dropped (working example_db) 12 7 3 (now failing_trigger_env)) = None"
    by (simp add: failing_trigger_env_def)
  note txn = txn_commits [OF h3 nz h4 h5]
  have n: "now failing_trigger_env = ''2023-11-20 10:00:00''"
    by (simp add: failing_trigger_env_def)
  have tr: "trigger_auto_enrollment failing_trigger_env 12 d
              = (Some (SqliteError IntegrityError ''FOREIGN KEY constraint failed''), d,
                 [IsAutoEnrollEnabled, EnrollStudentsFromWaitlist [12]])" for d
    by (simp add: trigger_auto_enrollment_def failing_trigger_env_def)
  have ne: "\<not> enrolled (dropped example_tables 12 7 3 ''2023-11-20 10:00:00'') 12 7"
    using not_enrolled_after_delete [OF example_instructor(1), of 7]
    by (simp add: enrolled_def dropped_tables)
  show ?thesis
    using txn ne
    by (simp add: drop_class_def drop_class_try_def tr n example_db_working CONFLICT_def)
qed

text \<open>
  C3 as stated fails: an OperationalError of the DELETE reaches the caller as it is,
  not as a 409.
\<close>

theorem operational_error_not_conflict:
  "fst (drop_class locked_env 12 7 3 example_db)
     = Inl (SqliteError OperationalError ''database is locked'')"
proof -
  have "raises locked_env (ExecuteDelete 12 7 3) (working example_db)
          = Some (SqliteError OperationalError ''database is locked'')"
    by (simp add: locked_env_def)
  from drop_class_of_txn_failure [OF txn_delete_raises [OF this]] show ?thesis by simp
qed

text \<open>
  C3, amended. Of the exceptions of the store raised inside the \<^verbatim>\<open>try\<close>, an
  IntegrityError becomes the 409 whose detail has the class name and the message; an
  exception of any other class of \<^verbatim>\<open>sqlite3\<close> reaches the caller unchanged.
\<close>

theorem integrity_error_becomes_conflict:
  assumes "drop_class_try ev class_id student_id instructor_id db
             = (Some (SqliteError k msg), db', calls)"
  shows "drop_class ev class_id student_id instructor_id db
           = (Inl (if k = IntegrityError
                   then HTTPException 409 (TypeMsg ''IntegrityError'' msg)
                   else SqliteError k msg), db', calls)"
  using assms by (cases k) (simp_all add: drop_class_def CONFLICT_def)

text \<open>The IntegrityError of the INSERT in the second drop of the pair (12, 7).\<close>

theorem integrity_error_becomes_conflict_witness:
  "drop_class_try unique_env 12 7 3 redropped_db
     = (Some (SqliteError IntegrityError
               ''UNIQUE constraint failed: droplist.class_id, droplist.student_id''),
        redropped_db\<lparr>working := snd (exec_delete (working redropped_db) 12 7 3)\<rparr>,
        [Db (ExecuteDelete 12 7 3), Db (ExecuteInsert 12 7)])
   \<and> fst (drop_class unique_env 12 7 3 redropped_db)
       = Inl (HTTPException 409 (TypeMsg ''IntegrityError''
               ''UNIQUE constraint failed: droplist.class_id, droplist.student_id''))"
proof -
  have t: "drop_class_try unique_env 12 7 3 redropped_db
     = (Some (SqliteError IntegrityError
               ''UNIQUE constraint failed: droplist.class_id, droplist.student_id''),
        redropped_db\<lparr>working := snd (exec_delete (working redropped_db) 12 7 3)\<rparr>,
        [Db (ExecuteDelete 12 7 3), Db (ExecuteInsert 12 7)])"
    by (simp add: drop_class_try_def unique_txn)
  from integrity_error_becomes_conflict [OF t] t show ?thesis by simp
qed

subsection \<open>After the commit\<close>

lemma drop_class_after_commit:
  assumes "drop_transaction ev class_id student_id instructor_id db = (None, db1, calls)"
  shows "drop_class_try ev class_id student_id instructor_id db
           = (if is_auto_enroll_enabled ev db1 = Inr True
              then (fst (enroll_students_from_waitlist ev db1 [class_id]),
                    snd (enroll_students_from_waitlist ev db1 [class_id]),
                    calls @ [IsAutoEnrollEnabled, EnrollStudentsFromWaitlist [class_id]])
              else (case is_auto_enroll_enabled ev db1 of Inl e \<Rightarrow> Some e | Inr b \<Rightarrow> None,
                    db1, calls @ [IsAutoEnrollEnabled]))"
  using assms
  by (auto simp: drop_class_try_def trigger_auto_enrollment_def split: sum.splits prod.splits)

lemma drop_class_conn_calls:
  "fst (snd (drop_class ev class_id student_id instructor_id db))
     = fst (snd (drop_class_try ev class_id student_id instructor_id db))"
  "snd (snd (drop_class ev class_id student_id instructor_id db))
     = snd (snd (drop_class_try ev class_id student_id instructor_id db))"
  by (auto simp: drop_class_def split: prod.splits option.splits)

text \<open>
  C5. When the transaction of the drop has committed: the connection has nothing
  uncommitted, the three calls of the transaction are behind, the next call reads the
  flag, and the trigger is called, with the list of the one class id and on the
  committed connection, if and only if the flag read returned true; otherwise the
  flag read is the last call and the connection stays the committed one.
\<close>

theorem trigger_after_commit:
  assumes "drop_transaction ev class_id student_id instructor_id db = (None, db1, calls)"
  shows "committed db1 = working db1
     \<and> calls = [Db (ExecuteDelete class_id student_id instructor_id),
                 Db (ExecuteInsert class_id student_id), Db Commit]
     \<and> snd (snd (drop_class ev class_id student_id instructor_id db))
         = calls @ (if is_auto_enroll_enabled ev db1 = Inr True
                    then [IsAutoEnrollEnabled, EnrollStudentsFromWaitlist [class_id]]
                    else [IsAutoEnrollEnabled])
     \<and> fst (snd (drop_class ev class_id student_id instructor_id db))
         = (if is_auto_enroll_enabled ev db1 = Inr True
            then snd (enroll_students_from_waitlist ev db1 [class_id])
            else db1)"
proof -
  from txn_success [OF assms] have a: "committed db1 = working db1"
    and b: "calls = [Db (ExecuteDelete class_id student_id instructor_id),
                 Db (ExecuteInsert class_id student_id), Db Commit]"
    by simp_all
  have c: "snd (snd (drop_class ev class_id student_id instructor_id db))
         = calls @ (if is_auto_enroll_enabled ev db1 = Inr True
                    then [IsAutoEnrollEnabled, EnrollStudentsFromWaitlist [class_id]]
                    else [IsAutoEnrollEnabled])"
    by (simp add: drop_class_conn_calls drop_class_after_commit [OF assms])
  have d: "fst (snd (drop_class ev class_id student_id instructor_id db))
         = (if is_auto_enroll_enabled ev db1 = Inr True
            then snd (enroll_students_from_waitlist ev db1 [class_id])
            else db1)"
    by (simp add: drop_class_conn_calls drop_class_after_commit [OF assms])
  from a b c d show ?thesis by blast
qed

lemma example_txn:
  assumes "raises ev = (\<lambda>c t. None)"
  shows "drop_transaction ev 12 7 3 example_db
     = (None,
        example_db\<lparr>committed := dropped (working example_db) 12 7 3 (now ev),
                   working := dropped (working example_db) 12 7 3 (now ev)\<rparr>,
        [Db (ExecuteDelete 12 7 3), Db (ExecuteInsert 12 7), Db Commit])"
proof (rule txn_commits)
  show "fst (exec_delete (working example_db) 12 7 3) \<noteq> 0"
    by (simp add: rowcount_zero_iff example_db_working example_enrolled example_instructor)
qed (simp_all add: assms)

text \<open>The example of the spec, with auto-enrollment on and with auto-enrollment off.\<close>

theorem trigger_after_commit_witness:
  "drop_transaction auto_env 12 7 3 example_db
     = (None,
        example_db\<lparr>committed := dropped (working example_db) 12 7 3 (now auto_env),
                   working := dropped (working example_db) 12 7 3 (now auto_env)\<rparr>,
        [Db (ExecuteDelete 12 7 3), Db (ExecuteInsert 12 7), Db Commit])
   \<and> snd (snd (drop_class auto_env 12 7 3 example_db))
       = [Db (ExecuteDelete 12 7 3), Db (ExecuteInsert 12 7), Db Commit,
          IsAutoEnrollEnabled, EnrollStudentsFromWaitlist [12]]
   \<and> drop_transaction quiet_env 12 7 3 example_db
     = (None,
        example_db\<lparr>committed := dropped (working example_db) 12 7 3 (now quiet_env),
                   working := dropped (working example_db) 12 7 3 (now quiet_env)\<rparr>,
        [Db (ExecuteDelete 12 7 3), Db (ExecuteInsert 12 7), Db Commit])
   \<and> snd (snd (drop_class quiet_env 12 7 3 example_db))
       = [Db (ExecuteDelete 12 7 3), Db (ExecuteInsert 12 7), Db Commit, IsAutoEnrollEnabled]"
proof -
  have ra: "raises auto_env = (\<lambda>c t. None)" by (simp add: auto_env_def)
  have rq: "raises quiet_env = (\<lambda>c t. None)" by (simp add: quiet_env_def)
  note ta = example_txn [OF ra]
  note tq = example_txn [OF rq]
  have fa: "is_auto_enroll_enabled auto_env d = Inr True" for d by (simp add: auto_env_def)
  have fq: "is_auto_enroll_enabled quiet_env d \<noteq> Inr True" for d by (simp add: quiet_env_def)
  from trigger_after_commit [OF ta] have
    a: "snd (snd (drop_class auto_env 12 7 3 example_db))
       = [Db (ExecuteDelete 12 7 3), Db (ExecuteInsert 12 7), Db Commit,
          IsAutoEnrollEnabled, EnrollStudentsFromWaitlist [12]]"
    by (simp add: fa)
  from trigger_after_commit [OF tq] have
    q: "snd (snd (drop_class quiet_env 12 7 3 example_db))
       = [Db (ExecuteDelete 12 7 3), Db (ExecuteInsert 12 7), Db Commit, IsAutoEnrollEnabled]"
    by (simp add: fq)
  from ta tq a q show ?thesis by blast
qed



text \<open>
  It fails too when the trigger enrolls the dropped student again: the second drop
  finds the row and returns as the first did.
\<close>

lemma second_drop_reenrolled:
  "fst (drop_class reenroll_env 12 7 3 example_db) = Inr item_deleted
   \<and> fst (drop_class reenroll_env 12 7 3 (fst (snd (drop_class reenroll_env 12 7 3 example_db))))
       = Inr item_deleted"
proof -
  have rr: "raises reenroll_env = (\<lambda>c t. None)" by (simp add: reenroll_env_def)
  have tr: "trigger_auto_enrollment reenroll_env 12 d
              = (None, snd (promote_7 d [12]),
                 [IsAutoEnrollEnabled, EnrollStudentsFromWaitlist [12]])" for d
    by (simp add: trigger_auto_enrollment_def reenroll_env_def promote_7_def)
  have dc: "drop_class reenroll_env 12 7 3 example_db
              = (Inr item_deleted,
                 snd (promote_7 (example_db\<lparr>committed := dropped (working example_db) 12 7 3 (now reenroll_env),
                   working := dropped (working example_db) 12 7 3 (now reenroll_env)\<rparr>) [12]),
                 [Db (ExecuteDelete 12 7 3), Db (ExecuteInsert 12 7), Db Commit,
                  IsAutoEnrollEnabled, EnrollStudentsFromWaitlist [12]])"
    using example_txn [OF rr] by (simp add: drop_class_def drop_class_try_def tr)
  let ?d = "snd (promote_7 (example_db\<lparr>committed := dropped (working example_db) 12 7 3 (now reenroll_env),
                   working := dropped (working example_db) 12 7 3 (now reenroll_env)\<rparr>) [12])"
  have e: "enrolled (working ?d) 12 7"
    by (simp add: promote_7_def commit_def enrolled_def)
  have i: "instructor_of (working ?d) 12 3"
    by (simp add: promote_7_def commit_def instructor_of_def dropped_tables example_db_working
        example_tables_def)
  have nz: "fst (exec_delete (working ?d) 12 7 3) \<noteq> 0"
    using e i by (simp add: rowcount_zero_iff)
  have t2: "drop_transaction reenroll_env 12 7 3 ?d
           = (None,
              ?d\<lparr>committed := dropped (working ?d) 12 7 3 (now reenroll_env),
                 working := dropped (working ?d) 12 7 3 (now reenroll_env)\<rparr>,
              [Db (ExecuteDelete 12 7 3), Db (ExecuteInsert 12 7), Db Commit])"
    by (rule txn_commits) (simp_all add: rr nz)
  have b: "fst (drop_class reenroll_env 12 7 3 ?d) = Inr item_deleted"
    using t2 by (simp add: drop_class_def drop_class_try_def tr)
  from dc b show ?thesis by simp
qed




subsection \<open>The droplist\<close>









end
